theory Spec2Isabelle
  imports Main "HOL-Library.Word"
begin

section \<open>Working hours: the interval model of data\_business\_common.h\<close>

subsection \<open>Constants and the interval record\<close>

text \<open>
  \<open>TimeId\<close> is the application's 32-bit signed integer type for times in seconds; its
  declaration lies outside the two source files. A value is modelled as an integer
  from \<open>-2^31\<close> to \<open>2^31 - 1\<close>, and comparisons are those of the integers. The header
  computes with \<open>TimeId\<close> only in \<open>shifted\<close>; a sum that leaves the range wraps around
  in the compiled code (the C++ standard leaves it undefined), and \<open>wrap32\<close> writes
  that out.
\<close>

type_synonym TimeId = int

definition TimeId_range :: "int \<Rightarrow> bool" where
  "TimeId_range x = (- 2147483648 \<le> x \<and> x < 2147483648)"

definition wrap32 :: "int \<Rightarrow> TimeId" where
  "wrap32 x = (x + 2147483648) mod 4294967296 - 2147483648"

definition kDay :: int where
  "kDay = 24 * 3600"

definition kWeek :: int where
  "kWeek = 7 * kDay"

definition kInNextDayMax :: int where
  "kInNextDayMax = 6 * 3600"

text \<open>
  \<open>struct WorkingInterval { TimeId start = 0; TimeId end = 0; ... }\<close>.
  The field \<open>end\<close> is written \<open>end'\<close>, as \<open>end\<close> is reserved.
\<close>

record WorkingInterval =
  start :: TimeId
  end' :: TimeId

text \<open>The default-constructed value \<open>WorkingInterval()\<close>.\<close>

definition WorkingInterval_default :: WorkingInterval where
  "WorkingInterval_default = \<lparr>start = 0, end' = 0\<rparr>"

text \<open>\<open>explicit operator bool() const { return start < end; }\<close>\<close>

definition WorkingInterval_bool :: "WorkingInterval \<Rightarrow> bool" where
  "WorkingInterval_bool a = (start a < end' a)"

text \<open>
  \<open>shifted(offset)\<close>: \<open>return { start + offset, end + offset };\<close> with the 32-bit
  sums.
\<close>

definition shifted :: "WorkingInterval \<Rightarrow> TimeId \<Rightarrow> WorkingInterval" where
  "shifted a offset =
     \<lparr>start = wrap32 (start a + offset), end' = wrap32 (end' a + offset)\<rparr>"

text \<open>
  \<open>united(other)\<close>: the first argument is \<open>*this\<close>.
  \<^verbatim>\<open>
  if (!*this) { return other; } else if (!other) { return *this; }
  return { std::min(start, other.start), std::max(end, other.end) };
  \<close>
\<close>

definition united :: "WorkingInterval \<Rightarrow> WorkingInterval \<Rightarrow> WorkingInterval" where
  "united a other =
     (if \<not> WorkingInterval_bool a then other
      else if \<not> WorkingInterval_bool other then a
      else \<lparr>start = min (start a) (start other), end' = max (end' a) (end' other)\<rparr>)"

text \<open>
  \<open>intersected(other)\<close>:
  \<^verbatim>\<open>
  const auto result = WorkingInterval{ std::max(start, other.start), std::min(end, other.end) };
  return result ? result : WorkingInterval();
  \<close>
\<close>

definition intersected :: "WorkingInterval \<Rightarrow> WorkingInterval \<Rightarrow> WorkingInterval" where
  "intersected a other =
     (let result = \<lparr>start = max (start a) (start other), end' = min (end' a) (end' other)\<rparr>
      in if WorkingInterval_bool result then result else WorkingInterval_default)"

subsection \<open>Interval lists and working hours\<close>

text \<open>\<open>struct WorkingIntervals { std::vector<WorkingInterval> list; ... }\<close>\<close>

record WorkingIntervals =
  list :: "WorkingInterval list"

text \<open>
  \<open>WorkingIntervals::operator bool\<close>: the loop returns \<open>true\<close> at the first interval
  that converts to \<open>true\<close>, and \<open>false\<close> after the last one.
\<close>

fun any_interval :: "WorkingInterval list \<Rightarrow> bool" where
  "any_interval [] = False"
| "any_interval (interval # rest) =
     (if WorkingInterval_bool interval then True else any_interval rest)"

definition WorkingIntervals_bool :: "WorkingIntervals \<Rightarrow> bool" where
  "WorkingIntervals_bool s = any_interval (list s)"

text \<open>
  \<open>struct WorkingHours { WorkingIntervals intervals; QString timezoneId; ... }\<close>;
  \<open>operator bool\<close> is \<open>!timezoneId.isEmpty()\<close>.
\<close>

record WorkingHours =
  intervals :: WorkingIntervals
  timezoneId :: string

definition WorkingHours_bool :: "WorkingHours \<Rightarrow> bool" where
  "WorkingHours_bool h = (timezoneId h \<noteq> [])"

text \<open>
  The header declares \<open>WorkingIntervals::normalized\<close>, \<open>ExtractDayIntervals\<close>,
  \<open>RemoveDayIntervals\<close> and \<open>ReplaceDayIntervals\<close> without bodies; they are not
  modelled.
\<close>

section \<open>Properties of the interval operations\<close>

text \<open>
  C8. The bool conversion of an interval is exactly \<open>start < end\<close>; the interval is
  empty (converts to false) exactly when \<open>start >= end\<close>.
\<close>

theorem WorkingInterval_bool_iff:
  "(WorkingInterval_bool a \<longleftrightarrow> start a < end' a) \<and>
   (\<not> WorkingInterval_bool a \<longleftrightarrow> start a \<ge> end' a)"
  by (auto simp: WorkingInterval_bool_def)

text \<open>The 32-bit wrap-around: what it returns, and when it changes nothing.\<close>

lemma wrap32_in_range: "TimeId_range (wrap32 x)"
  by (simp add: wrap32_def TimeId_range_def)

lemma wrap32_id: "TimeId_range x \<Longrightarrow> wrap32 x = x"
  by (simp add: wrap32_def TimeId_range_def)

lemma wrap32_sint: "wrap32 x = sint (word_of_int x :: 32 word)"
  by (simp add: wrap32_def int_word_sint)

lemma wrap32_add_cancel:
  assumes "TimeId_range x"
  shows "wrap32 (wrap32 (x + k) + (- k)) = x"
proof -
  have "(wrap32 (x + k) + (- k) + 2147483648) mod 4294967296 =
      ((x + k + 2147483648) mod 4294967296 - k) mod 4294967296"
    by (simp add: wrap32_def)
  also have "\<dots> = (x + k + 2147483648 - k) mod 4294967296"
    by (rule mod_diff_left_eq)
  also have "\<dots> = x + 2147483648"
    using assms by (simp add: TimeId_range_def)
  finally show ?thesis by (simp add: wrap32_def)
qed

text \<open>
  C7. For every interval with 32-bit endpoints, shifting by \<open>kWeek = 604800\<close> and then
  by \<open>-kWeek\<close> gives the interval back, also when the first shift overflows.
  \<open>shifted\<close> adds the offset to both endpoints in 32-bit arithmetic and clamps nothing:
  the endpoints are the exact sums whenever these fit in 32 bits.
\<close>

theorem shifted_week_roundtrip:
  assumes "TimeId_range (start a)" and "TimeId_range (end' a)"
  shows "shifted (shifted a kWeek) (- kWeek) = a \<and>
    kWeek = 604800 \<and>
    shifted a offset =
      \<lparr>start = wrap32 (start a + offset), end' = wrap32 (end' a + offset)\<rparr> \<and>
    (TimeId_range (start a + offset) \<longrightarrow> start (shifted a offset) = start a + offset) \<and>
    (TimeId_range (end' a + offset) \<longrightarrow> end' (shifted a offset) = end' a + offset)"
proof -
  have "shifted (shifted a kWeek) (- kWeek) =
      \<lparr>start = wrap32 (wrap32 (start a + kWeek) + (- kWeek)),
       end' = wrap32 (wrap32 (end' a + kWeek) + (- kWeek))\<rparr>"
    by (simp add: shifted_def)
  also have "\<dots> = \<lparr>start = start a, end' = end' a\<rparr>"
    using assms by (simp only: wrap32_add_cancel)
  finally have "shifted (shifted a kWeek) (- kWeek) = a" by simp
  moreover have "kWeek = 604800" by (simp add: kWeek_def kDay_def)
  ultimately show ?thesis by (simp add: shifted_def wrap32_id)
qed

theorem shifted_week_roundtrip_witness:
  "TimeId_range (start \<lparr>start = 2147483000, end' = 2147483647\<rparr>) \<and>
   TimeId_range (end' \<lparr>start = 2147483000, end' = 2147483647\<rparr>) \<and>
   shifted \<lparr>start = 2147483000, end' = 2147483647\<rparr> 604800 =
     \<lparr>start = - 2146879496, end' = - 2146878849\<rparr> \<and>
   shifted (shifted \<lparr>start = 2147483000, end' = 2147483647\<rparr> kWeek) (- kWeek) =
     \<lparr>start = 2147483000, end' = 2147483647\<rparr> \<and>
   shifted \<lparr>start = 0, end' = 3600\<rparr> 86400 = \<lparr>start = 86400, end' = 90000\<rparr>"
proof -
  have r: "TimeId_range (start \<lparr>start = 2147483000, end' = 2147483647\<rparr>)"
    "TimeId_range (end' \<lparr>start = 2147483000, end' = 2147483647\<rparr>)"
    by (simp_all add: TimeId_range_def)
  have z: "TimeId_range (start \<lparr>start = 0, end' = 3600\<rparr>)"
    "TimeId_range (end' \<lparr>start = 0, end' = 3600\<rparr>)"
    by (simp_all add: TimeId_range_def)
  from shifted_week_roundtrip [OF r, of 604800]
  have "shifted \<lparr>start = 2147483000, end' = 2147483647\<rparr> 604800 =
      \<lparr>start = wrap32 (start \<lparr>start = 2147483000, end' = 2147483647\<rparr> + 604800),
       end' = wrap32 (end' \<lparr>start = 2147483000, end' = 2147483647\<rparr> + 604800)\<rparr>"
    by blast
  then have "shifted \<lparr>start = 2147483000, end' = 2147483647\<rparr> 604800 =
      \<lparr>start = - 2146879496, end' = - 2146878849\<rparr>"
    by (simp add: wrap32_def)
  moreover from shifted_week_roundtrip [OF r, of 0]
  have "shifted (shifted \<lparr>start = 2147483000, end' = 2147483647\<rparr> kWeek) (- kWeek) =
      \<lparr>start = 2147483000, end' = 2147483647\<rparr>"
    by blast
  moreover from shifted_week_roundtrip [OF z, of 86400]
  have "shifted \<lparr>start = 0, end' = 3600\<rparr> 86400 =
      \<lparr>start = wrap32 (start \<lparr>start = 0, end' = 3600\<rparr> + 86400),
       end' = wrap32 (end' \<lparr>start = 0, end' = 3600\<rparr> + 86400)\<rparr>"
    by blast
  then have "shifted \<lparr>start = 0, end' = 3600\<rparr> 86400 = \<lparr>start = 86400, end' = 90000\<rparr>"
    by (simp add: wrap32_def)
  ultimately show ?thesis using r by blast
qed

text \<open>
  C2. \<open>a.united(b)\<close> is \<open>b\<close> when \<open>a\<close> is empty, \<open>a\<close> when only \<open>b\<close> is empty, and
  otherwise the bounding interval from the smaller start to the larger end, whether or
  not the two overlap.
\<close>

theorem united_cases:
  "(\<not> WorkingInterval_bool a \<longrightarrow> united a b = b) \<and>
   (WorkingInterval_bool a \<and> \<not> WorkingInterval_bool b \<longrightarrow> united a b = a) \<and>
   (WorkingInterval_bool a \<and> WorkingInterval_bool b \<longrightarrow>
      united a b = \<lparr>start = min (start a) (start b), end' = max (end' a) (end' b)\<rparr>)"
  by (simp add: united_def)

theorem united_cases_witness:
  "\<not> WorkingInterval_bool \<lparr>start = 5, end' = 3\<rparr> \<and>
   WorkingInterval_bool \<lparr>start = 0, end' = 10\<rparr> \<and>
   WorkingInterval_bool \<lparr>start = 20, end' = 30\<rparr> \<and>
   united \<lparr>start = 5, end' = 3\<rparr> \<lparr>start = 20, end' = 30\<rparr> = \<lparr>start = 20, end' = 30\<rparr> \<and>
   united \<lparr>start = 0, end' = 10\<rparr> \<lparr>start = 5, end' = 3\<rparr> = \<lparr>start = 0, end' = 10\<rparr> \<and>
   united \<lparr>start = 0, end' = 10\<rparr> \<lparr>start = 20, end' = 30\<rparr> = \<lparr>start = 0, end' = 30\<rparr>"
  using united_cases [of "\<lparr>start = 5, end' = 3\<rparr>" "\<lparr>start = 20, end' = 30\<rparr>"]
    united_cases [of "\<lparr>start = 0, end' = 10\<rparr>" "\<lparr>start = 5, end' = 3\<rparr>"]
    united_cases [of "\<lparr>start = 0, end' = 10\<rparr>" "\<lparr>start = 20, end' = 30\<rparr>"]
  by (simp add: WorkingInterval_bool_def)

text \<open>
  C3. \<open>a.intersected(b)\<close> is the interval from the larger start to the smaller end when
  that range has \<open>start < end\<close> (the operands overlap), and the default interval
  \<open>{0, 0}\<close> otherwise; its width is never negative.
\<close>

theorem intersected_cases:
  "intersected a b =
     (if max (start a) (start b) < min (end' a) (end' b)
      then \<lparr>start = max (start a) (start b), end' = min (end' a) (end' b)\<rparr>
      else \<lparr>start = 0, end' = 0\<rparr>) \<and>
   start (intersected a b) \<le> end' (intersected a b)"
  by (simp add: intersected_def WorkingInterval_bool_def WorkingInterval_default_def Let_def)

theorem intersected_cases_witness:
  "intersected \<lparr>start = 0, end' = 10\<rparr> \<lparr>start = 5, end' = 30\<rparr> = \<lparr>start = 5, end' = 10\<rparr> \<and>
   intersected \<lparr>start = 0, end' = 10\<rparr> \<lparr>start = 20, end' = 30\<rparr> = \<lparr>start = 0, end' = 0\<rparr> \<and>
   intersected \<lparr>start = 0, end' = 10\<rparr> \<lparr>start = 10, end' = 30\<rparr> = \<lparr>start = 0, end' = 0\<rparr>"
  using intersected_cases [of "\<lparr>start = 0, end' = 10\<rparr>" "\<lparr>start = 5, end' = 30\<rparr>"]
    intersected_cases [of "\<lparr>start = 0, end' = 10\<rparr>" "\<lparr>start = 20, end' = 30\<rparr>"]
    intersected_cases [of "\<lparr>start = 0, end' = 10\<rparr>" "\<lparr>start = 10, end' = 30\<rparr>"]
  by simp

text \<open>
  C6. On two non-empty intervals that overlap or touch, \<open>united\<close> gives the same result
  in either order.
\<close>

theorem united_commute:
  assumes "WorkingInterval_bool a" and "WorkingInterval_bool b"
    and "start b \<le> end' a" and "start a \<le> end' b"
  shows "united a b = united b a"
  using assms by (simp add: united_def min.commute max.commute)

theorem united_commute_witness:
  "WorkingInterval_bool \<lparr>start = 0, end' = 10\<rparr> \<and>
   WorkingInterval_bool \<lparr>start = 10, end' = 30\<rparr> \<and>
   start \<lparr>start = 10, end' = 30\<rparr> \<le> end' \<lparr>start = 0, end' = 10\<rparr> \<and>
   start \<lparr>start = 0, end' = 10\<rparr> \<le> end' \<lparr>start = 10, end' = 30\<rparr> \<and>
   united \<lparr>start = 0, end' = 10\<rparr> \<lparr>start = 10, end' = 30\<rparr> =
     united \<lparr>start = 10, end' = 30\<rparr> \<lparr>start = 0, end' = 10\<rparr>"
proof -
  have a: "WorkingInterval_bool \<lparr>start = 0, end' = 10\<rparr>"
    and b: "WorkingInterval_bool \<lparr>start = 10, end' = 30\<rparr>"
    by (simp_all add: WorkingInterval_bool_def)
  have t1: "start \<lparr>start = 10, end' = 30\<rparr> \<le> end' \<lparr>start = 0, end' = 10\<rparr>"
    and t2: "start \<lparr>start = 0, end' = 10\<rparr> \<le> end' \<lparr>start = 10, end' = 30\<rparr>"
    by simp_all
  from united_commute [OF a b t1 t2] a b t1 t2 show ?thesis by blast
qed

text \<open>
  C9. A \<open>WorkingHours\<close> value converts to true exactly when its timezone identifier is
  not the empty string; the intervals it holds play no part.
\<close>

theorem WorkingHours_bool_iff:
  "(WorkingHours_bool h \<longleftrightarrow> timezoneId h \<noteq> []) \<and>
   WorkingHours_bool (h\<lparr>intervals := s\<rparr>) = WorkingHours_bool h \<and>
   WorkingHours_bool \<lparr>intervals = s, timezoneId = tz\<rparr> = (tz \<noteq> [])"
  by (simp add: WorkingHours_bool_def)

text \<open>
  The loop of \<open>WorkingIntervals::operator bool\<close> finds an interval with
  \<open>start < end\<close> exactly when the list has one.
\<close>

lemma any_interval_iff:
  "any_interval xs \<longleftrightarrow> (\<exists>i \<in> set xs. start i < end' i)"
  by (induction xs) (auto simp: WorkingInterval_bool_def)

text \<open>
  C10. A \<open>WorkingIntervals\<close> value converts to true exactly when some interval of its
  list has \<open>start < end\<close>; so a list of empty intervals only, and the empty list,
  convert to false.
\<close>

theorem WorkingIntervals_bool_iff:
  "(WorkingIntervals_bool s \<longleftrightarrow> (\<exists>i \<in> set (list s). start i < end' i)) \<and>
   ((\<forall>i \<in> set (list s). \<not> start i < end' i) \<longrightarrow> \<not> WorkingIntervals_bool s) \<and>
   \<not> WorkingIntervals_bool \<lparr>list = []\<rparr>"
  by (simp add: WorkingIntervals_bool_def any_interval_iff)

theorem WorkingIntervals_bool_iff_witness:
  "\<not> WorkingIntervals_bool \<lparr>list = [\<lparr>start = 5, end' = 3\<rparr>, \<lparr>start = 0, end' = 0\<rparr>]\<rparr> \<and>
   WorkingIntervals_bool \<lparr>list = [\<lparr>start = 5, end' = 3\<rparr>, \<lparr>start = 1, end' = 2\<rparr>]\<rparr>"
  using WorkingIntervals_bool_iff [of "\<lparr>list = [\<lparr>start = 5, end' = 3\<rparr>, \<lparr>start = 0, end' = 0\<rparr>]\<rparr>"]
    WorkingIntervals_bool_iff [of "\<lparr>list = [\<lparr>start = 5, end' = 3\<rparr>, \<lparr>start = 1, end' = 2\<rparr>]\<rparr>"]
  by simp

text \<open>
  \<open>shifted\<close> does not even keep a non-empty interval non-empty: one that ends at the
  largest 32-bit value becomes empty when shifted by one second.
\<close>

lemma shifted_overflow_empties:
  "WorkingInterval_bool \<lparr>start = 2147483000, end' = 2147483647\<rparr> \<and>
   shifted \<lparr>start = 2147483000, end' = 2147483647\<rparr> 1 =
     \<lparr>start = 2147483001, end' = - 2147483648\<rparr> \<and>
   \<not> WorkingInterval_bool (shifted \<lparr>start = 2147483000, end' = 2147483647\<rparr> 1)"
  by (simp add: shifted_def wrap32_def WorkingInterval_bool_def)

text \<open>
  C1 (as amended). \<open>intersected\<close> keeps emptiness canonical: a result with
  \<open>start >= end\<close> is \<open>{0, 0}\<close>. \<open>shifted\<close> and \<open>united\<close> do not normalize.
  \<open>shifted\<close> returns \<open>{start + offset, end + offset}\<close>, the 32-bit sums, whatever
  their order; so the canonical empty interval shifted by \<open>offset\<close> is
  \<open>{offset, offset}\<close>. \<open>united\<close> returns an operand as it is when the other one is
  empty: its result has \<open>start >= end\<close> exactly when both operands have, and is then
  the second operand, unchanged.
\<close>

theorem emptiness_of_results:
  "(end' (intersected a b) \<le> start (intersected a b) \<longrightarrow>
      intersected a b = \<lparr>start = 0, end' = 0\<rparr>) \<and>
   shifted a offset =
     \<lparr>start = wrap32 (start a + offset), end' = wrap32 (end' a + offset)\<rparr> \<and>
   (TimeId_range (start a + offset) \<and> TimeId_range (end' a + offset) \<longrightarrow>
      shifted a offset = \<lparr>start = start a + offset, end' = end' a + offset\<rparr>) \<and>
   (TimeId_range offset \<longrightarrow>
      shifted \<lparr>start = 0, end' = 0\<rparr> offset = \<lparr>start = offset, end' = offset\<rparr>) \<and>
   (end' (united a b) \<le> start (united a b) \<longleftrightarrow>
      end' a \<le> start a \<and> end' b \<le> start b) \<and>
   (end' (united a b) \<le> start (united a b) \<longrightarrow> united a b = b)"
  by (auto simp: intersected_def shifted_def united_def WorkingInterval_bool_def
      WorkingInterval_default_def Let_def wrap32_id)

theorem emptiness_of_results_witness:
  "end' (intersected \<lparr>start = 0, end' = 10\<rparr> \<lparr>start = 20, end' = 30\<rparr>)
     \<le> start (intersected \<lparr>start = 0, end' = 10\<rparr> \<lparr>start = 20, end' = 30\<rparr>) \<and>
   intersected \<lparr>start = 0, end' = 10\<rparr> \<lparr>start = 20, end' = 30\<rparr> = \<lparr>start = 0, end' = 0\<rparr> \<and>
   end' (united \<lparr>start = 7, end' = 7\<rparr> \<lparr>start = 5, end' = 3\<rparr>)
     \<le> start (united \<lparr>start = 7, end' = 7\<rparr> \<lparr>start = 5, end' = 3\<rparr>) \<and>
   united \<lparr>start = 7, end' = 7\<rparr> \<lparr>start = 5, end' = 3\<rparr> = \<lparr>start = 5, end' = 3\<rparr> \<and>
   TimeId_range 5 \<and>
   shifted \<lparr>start = 0, end' = 0\<rparr> 5 = \<lparr>start = 5, end' = 5\<rparr>"
proof -
  have h1: "end' (intersected \<lparr>start = 0, end' = 10\<rparr> \<lparr>start = 20, end' = 30\<rparr>)
      \<le> start (intersected \<lparr>start = 0, end' = 10\<rparr> \<lparr>start = 20, end' = 30\<rparr>)"
    by (simp add: intersected_def WorkingInterval_bool_def WorkingInterval_default_def)
  have h2: "end' (united \<lparr>start = 7, end' = 7\<rparr> \<lparr>start = 5, end' = 3\<rparr>)
      \<le> start (united \<lparr>start = 7, end' = 7\<rparr> \<lparr>start = 5, end' = 3\<rparr>)"
    by (simp add: united_def WorkingInterval_bool_def)
  have h3: "TimeId_range 5"
    by (simp add: TimeId_range_def)
  from emptiness_of_results [of "\<lparr>start = 0, end' = 10\<rparr>" "\<lparr>start = 20, end' = 30\<rparr>" 0] h1
  have c1: "intersected \<lparr>start = 0, end' = 10\<rparr> \<lparr>start = 20, end' = 30\<rparr> = \<lparr>start = 0, end' = 0\<rparr>"
    by blast
  from emptiness_of_results [of "\<lparr>start = 7, end' = 7\<rparr>" "\<lparr>start = 5, end' = 3\<rparr>" 5] h2 h3
  have c2: "united \<lparr>start = 7, end' = 7\<rparr> \<lparr>start = 5, end' = 3\<rparr> = \<lparr>start = 5, end' = 3\<rparr>"
    and c3: "shifted \<lparr>start = 0, end' = 0\<rparr> 5 = \<lparr>start = 5, end' = 5\<rparr>"
    by blast+
  from h1 c1 h2 c2 h3 c3 show ?thesis by blast
qed

text \<open>
  C1 as it is stated fails for \<open>shifted\<close> and for \<open>united\<close>: the canonical empty
  interval shifted by 5 is \<open>{5, 5}\<close>, and \<open>united\<close> hands back an empty operand
  \<open>{5, 3}\<close> as it is. Both results have \<open>start >= end\<close> and neither is \<open>{0, 0}\<close>.
\<close>

theorem shifted_united_leak_empty:
  "end' (shifted \<lparr>start = 0, end' = 0\<rparr> 5) \<le> start (shifted \<lparr>start = 0, end' = 0\<rparr> 5) \<and>
   shifted \<lparr>start = 0, end' = 0\<rparr> 5 \<noteq> \<lparr>start = 0, end' = 0\<rparr> \<and>
   end' (united \<lparr>start = 0, end' = 0\<rparr> \<lparr>start = 5, end' = 3\<rparr>)
     \<le> start (united \<lparr>start = 0, end' = 0\<rparr> \<lparr>start = 5, end' = 3\<rparr>) \<and>
   united \<lparr>start = 0, end' = 0\<rparr> \<lparr>start = 5, end' = 3\<rparr> \<noteq> \<lparr>start = 0, end' = 0\<rparr>"
  by (simp add: shifted_def wrap32_def united_def WorkingInterval_bool_def)

end
